theory Spec2Isabelle
  imports Complex_Main "HOL-Library.Log_Nat"
begin

section \<open>Values of the consumer\<close>

text \<open>
  The program is \<^verbatim>\<open>consumers/project_consumer_vrtachnik.py\<close>: it tails a file of JSON
  lines and keeps, per author, a message count and a sum of sentiments in the module-level
  \<^verbatim>\<open>author_stats = defaultdict(lambda: {"count": 0, "sentiment_sum": 0.0})\<close>.

  Text is modelled as \<open>string\<close>; a character is read as a code point below 256.
\<close>

subsection \<open>Python floats\<close>

text \<open>
  A Python \<^verbatim>\<open>float\<close> is an IEEE 754 binary64 number. A finite one is carried by its exact
  rational value (the two zeros, which Python's \<^verbatim>\<open>==\<close> identifies, are both \<open>Fin 0\<close>);
  every arithmetic result is rounded to the nearest representable value, ties to even.
\<close>

datatype pyfloat = Fin rat | PInf | NInf | NaN

text \<open>The exponent \<open>e\<close> with \<open>2^e \<le> a < 2^(e+1)\<close>, for \<open>a > 0\<close>.\<close>

definition floor_log2 :: "rat \<Rightarrow> int" where
  "floor_log2 a =
     (let (p, d) = quotient_of a; e0 = bitlen p - bitlen d
      in if 2 powi e0 \<le> a then e0 else e0 - 1)"

definition round_half_even :: "rat \<Rightarrow> int" where
  "round_half_even x =
     (let f = \<lfloor>x\<rfloor>; d = x - of_int f
      in if d < 1 / 2 then f else if 1 / 2 < d then f + 1
         else if even f then f else f + 1)"

text \<open>
  Rounding to binary64: 53 significant bits, the unit in the last place never below
  \<open>2^-1074\<close> (subnormals), and infinity once the rounded value reaches \<open>2^1024\<close>.
\<close>

definition round_double :: "rat \<Rightarrow> pyfloat" where
  "round_double x =
     (if x = 0 then Fin 0
      else let a = \<bar>x\<bar>;
               q = max (floor_log2 a - 52) (- 1074);
               y = of_int (round_half_even (a / 2 powi q)) * 2 powi q
           in if 2 powi 1024 \<le> y then (if 0 < x then PInf else NInf)
              else Fin (if 0 < x then y else - y))"

text \<open>\<^verbatim>\<open>a + b\<close> on two floats (line 98, \<^verbatim>\<open>stats["sentiment_sum"] += sentiment\<close>).\<close>

fun float_add :: "pyfloat \<Rightarrow> pyfloat \<Rightarrow> pyfloat" where
  "float_add NaN b = NaN"
| "float_add a NaN = NaN"
| "float_add PInf NInf = NaN"
| "float_add NInf PInf = NaN"
| "float_add PInf b = PInf"
| "float_add NInf b = NInf"
| "float_add a PInf = PInf"
| "float_add a NInf = NInf"
| "float_add (Fin a) (Fin b) = round_double (a + b)"

datatype pyexn = JSONDecodeError | ValueError | TypeError | OverflowError
  | ZeroDivisionError | RecursionError

text \<open>
  Conversion of a Python \<^verbatim>\<open>int\<close> to a float: correctly rounded, and
  \<^verbatim>\<open>OverflowError: int too large to convert to float\<close> when out of range.
\<close>

definition int_to_float :: "int \<Rightarrow> pyexn + pyfloat" where
  "int_to_float i =
     (case round_double (of_int i) of Fin r \<Rightarrow> Inr (Fin r) | _ \<Rightarrow> Inl OverflowError)"

text \<open>\<^verbatim>\<open>a / b\<close> on two floats: division by zero raises.\<close>

fun float_div :: "pyfloat \<Rightarrow> pyfloat \<Rightarrow> pyexn + pyfloat" where
  "float_div a (Fin b) =
     (if b = 0 then Inl ZeroDivisionError
      else case a of
             Fin x \<Rightarrow> Inr (round_double (x / b))
           | PInf \<Rightarrow> Inr (if 0 < b then PInf else NInf)
           | NInf \<Rightarrow> Inr (if 0 < b then NInf else PInf)
           | NaN \<Rightarrow> Inr NaN)"
| "float_div a NaN = Inr NaN"
| "float_div (Fin x) b = Inr (Fin 0)"
| "float_div NaN b = Inr NaN"
| "float_div a b = Inr NaN"

text \<open>
  \<^verbatim>\<open>sentiment_sum / count\<close> (line 60): a float divided by an \<^verbatim>\<open>int\<close>; the int is
  converted to a float first.
\<close>

definition truediv_int :: "pyfloat \<Rightarrow> nat \<Rightarrow> pyexn + pyfloat" where
  "truediv_int s n =
     (case int_to_float (int n) of Inl e \<Rightarrow> Inl e | Inr b \<Rightarrow> float_div s b)"

subsection \<open>Decoded JSON\<close>

text \<open>
  What \<^verbatim>\<open>json.loads\<close> returns: \<^verbatim>\<open>None\<close>, \<^verbatim>\<open>bool\<close>, \<^verbatim>\<open>int\<close>, \<^verbatim>\<open>float\<close>,
  \<^verbatim>\<open>str\<close>, \<^verbatim>\<open>list\<close> or \<^verbatim>\<open>dict\<close>. A dict is an association list in insertion order.
\<close>

datatype json = JNull | JBool bool | JInt int | JFloat pyfloat | JStr string
  | JArr "json list" | JObj "(string \<times> json) list"

datatype pytype = NoneType | Bool_t | Int_t | Float_t | Str_t | List_t | Dict_t

fun type_of :: "json \<Rightarrow> pytype" where
  "type_of JNull = NoneType"
| "type_of (JBool b) = Bool_t"
| "type_of (JInt i) = Int_t"
| "type_of (JFloat f) = Float_t"
| "type_of (JStr s) = Str_t"
| "type_of (JArr xs) = List_t"
| "type_of (JObj d) = Dict_t"

text \<open>\<^verbatim>\<open>d.get(key, default)\<close> on a decoded object.\<close>

definition dict_get :: "(string \<times> json) list \<Rightarrow> string \<Rightarrow> json \<Rightarrow> json" where
  "dict_get d k dflt = (case map_of d k of Some v \<Rightarrow> v | None \<Rightarrow> dflt)"

text \<open>
  The two library functions whose full behaviour lies outside the repository are
  parameters of the model: \<^verbatim>\<open>json.loads\<close> on a line, and \<^verbatim>\<open>float\<close> on a \<^verbatim>\<open>str\<close>.
\<close>

record pylib =
  json_loads :: "string \<Rightarrow> pyexn + json"
  str_to_float :: "string \<Rightarrow> pyexn + pyfloat"

text \<open>\<^verbatim>\<open>float(x)\<close> (line 93) on a decoded value.\<close>

fun py_float :: "pylib \<Rightarrow> json \<Rightarrow> pyexn + pyfloat" where
  "py_float lib JNull = Inl TypeError"
| "py_float lib (JBool b) = Inr (Fin (if b then 1 else 0))"
| "py_float lib (JInt i) = int_to_float i"
| "py_float lib (JFloat f) = Inr f"
| "py_float lib (JStr s) = str_to_float lib s"
| "py_float lib (JArr xs) = Inl TypeError"
| "py_float lib (JObj d) = Inl TypeError"

subsection \<open>The defaultdict \<^verbatim>\<open>author_stats\<close>\<close>

record stats =
  count :: nat
  sentiment_sum :: pyfloat

text \<open>
  Keys are the decoded \<^verbatim>\<open>author\<close> values, kept in insertion order. Lists and dicts are
  unhashable. Two keys are the same entry when Python's \<^verbatim>\<open>==\<close> holds: \<^verbatim>\<open>True == 1 == 1.0\<close>,
  and a NaN equals nothing, itself included.
\<close>

type_synonym author_stats = "(json \<times> stats) list"

datatype hkey = HNone | HNum rat | HPInf | HNInf | HNaN | HStr string

fun key_of :: "json \<Rightarrow> hkey option" where
  "key_of JNull = Some HNone"
| "key_of (JBool b) = Some (HNum (if b then 1 else 0))"
| "key_of (JInt i) = Some (HNum (of_int i))"
| "key_of (JFloat (Fin r)) = Some (HNum r)"
| "key_of (JFloat PInf) = Some HPInf"
| "key_of (JFloat NInf) = Some HNInf"
| "key_of (JFloat NaN) = Some HNaN"
| "key_of (JStr s) = Some (HStr s)"
| "key_of (JArr xs) = None"
| "key_of (JObj d) = None"

definition hashable :: "json \<Rightarrow> bool" where
  "hashable a = (key_of a \<noteq> None)"

definition same_key :: "json \<Rightarrow> json \<Rightarrow> bool" where
  "same_key k a = (key_of k = key_of a \<and> key_of a \<noteq> None \<and> key_of a \<noteq> Some HNaN)"

text \<open>
  Dictionary lookup finds the entry that is the looked-up object itself (\<open>ident\<close> is its
  position when the object is one of the dict's own keys, as in \<^verbatim>\<open>update_chart\<close>) or that
  equals it.
\<close>

fun lookdict :: "nat \<Rightarrow> nat option \<Rightarrow> json \<Rightarrow> author_stats \<Rightarrow> nat option" where
  "lookdict j ident a [] = None"
| "lookdict j ident a ((k, s) # d) =
     (if ident = Some j \<or> same_key k a then Some j else lookdict (Suc j) ident a d)"

text \<open>
  \<^verbatim>\<open>author_stats[a]\<close>: raises on an unhashable key, inserts the default
  \<^verbatim>\<open>{"count": 0, "sentiment_sum": 0.0}\<close> on a miss; returns the dict and the position of
  the entry.
\<close>

definition getitem :: "author_stats \<Rightarrow> nat option \<Rightarrow> json \<Rightarrow> pyexn + (author_stats \<times> nat)" where
  "getitem d ident a =
     (if \<not> hashable a then Inl TypeError
      else case lookdict 0 ident a d of
             Some j \<Rightarrow> Inr (d, j)
           | None \<Rightarrow> Inr (d @ [(a, \<lparr>count = 0, sentiment_sum = Fin 0\<rparr>)], length d))"

definition modify :: "author_stats \<Rightarrow> nat \<Rightarrow> (stats \<Rightarrow> stats) \<Rightarrow> author_stats" where
  "modify d j f = d[j := (fst (d ! j), f (snd (d ! j)))]"

section \<open>update_chart\<close>

text \<open>
  Lines 57--63 compute what is drawn; the matplotlib calls that follow only consume it and
  are not part of the model (an exception out of one of them would leave \<^verbatim>\<open>update_chart\<close>
  the way the \<^verbatim>\<open>OverflowError\<close> of the division does). Every \<^verbatim>\<open>author_stats[a]\<close> is a
  defaultdict access, which inserts on a miss, so the dict is threaded through.
\<close>

record chart =
  authors :: "json list"
  counts :: "nat list"
  avgs :: "pyfloat list"

text \<open>\<^verbatim>\<open>author_stats[a]["count"]\<close> and \<^verbatim>\<open>author_stats[a]["sentiment_sum"]\<close> for the key at position \<open>i\<close>.\<close>

definition read_stats :: "author_stats \<Rightarrow> nat \<Rightarrow> json \<Rightarrow> pyexn + (author_stats \<times> stats)" where
  "read_stats d i a =
     (case getitem d (Some i) a of Inl e \<Rightarrow> Inl e | Inr (d', j) \<Rightarrow> Inr (d', snd (d' ! j)))"

text \<open>\<^verbatim>\<open>[author_stats[a]["count"] for a in authors]\<close>, from position \<open>i\<close> on.\<close>

fun chart_counts :: "author_stats \<Rightarrow> nat \<Rightarrow> json list \<Rightarrow> pyexn + (author_stats \<times> nat list)" where
  "chart_counts d i [] = Inr (d, [])"
| "chart_counts d i (a # as) =
     (case read_stats d i a of
        Inl e \<Rightarrow> Inl e
      | Inr (d1, s) \<Rightarrow>
          (case chart_counts d1 (Suc i) as of
             Inl e \<Rightarrow> Inl e
           | Inr (d2, cs) \<Rightarrow> Inr (d2, count s # cs)))"

text \<open>
  One element of the list of averages:
  \<^verbatim>\<open>(author_stats[a]["sentiment_sum"] / author_stats[a]["count"]) if author_stats[a]["count"] else 0.5\<close>;
  the condition is evaluated first, then the dividend, then the divisor.
\<close>

definition chart_avg :: "author_stats \<Rightarrow> nat \<Rightarrow> json \<Rightarrow> pyexn + (author_stats \<times> pyfloat)" where
  "chart_avg d i a =
     (case read_stats d i a of
        Inl e \<Rightarrow> Inl e
      | Inr (d1, s1) \<Rightarrow>
          if count s1 \<noteq> 0 then
            (case read_stats d1 i a of
               Inl e \<Rightarrow> Inl e
             | Inr (d2, s2) \<Rightarrow>
                 (case read_stats d2 i a of
                    Inl e \<Rightarrow> Inl e
                  | Inr (d3, s3) \<Rightarrow>
                      (case truediv_int (sentiment_sum s2) (count s3) of
                         Inl e \<Rightarrow> Inl e
                       | Inr q \<Rightarrow> Inr (d3, q))))
          else Inr (d1, Fin (1 / 2)))"

fun chart_avgs :: "author_stats \<Rightarrow> nat \<Rightarrow> json list \<Rightarrow> pyexn + (author_stats \<times> pyfloat list)" where
  "chart_avgs d i [] = Inr (d, [])"
| "chart_avgs d i (a # as) =
     (case chart_avg d i a of
        Inl e \<Rightarrow> Inl e
      | Inr (d1, q) \<Rightarrow>
          (case chart_avgs d1 (Suc i) as of
             Inl e \<Rightarrow> Inl e
           | Inr (d2, qs) \<Rightarrow> Inr (d2, q # qs)))"

text \<open>
  The result is the dict after the call and either the exception that left the function
  or the data handed to \<^verbatim>\<open>ax.bar\<close> and \<^verbatim>\<open>ax.annotate\<close>.
\<close>

definition update_chart :: "author_stats \<Rightarrow> author_stats \<times> (pyexn + chart)" where
  "update_chart d =
     (let as = map fst d in
      case chart_counts d 0 as of
        Inl e \<Rightarrow> (d, Inl e)
      | Inr (d1, cs) \<Rightarrow>
          (case chart_avgs d1 0 as of
             Inl e \<Rightarrow> (d1, Inl e)
           | Inr (d2, qs) \<Rightarrow> (d2, Inr \<lparr>authors = as, counts = cs, avgs = qs\<rparr>)))"

section \<open>process_message\<close>

datatype log_record =
    Processed json pyfloat
  | Expected_dict pytype
  | Error_processing pyexn

record outcome =
  stats_after :: author_stats
  logged :: "log_record list"
  drawn :: "chart option"

text \<open>
  Lines 96--98, the block \<^verbatim>\<open># update stats\<close>:
  \<^verbatim>\<open>stats = author_stats[author]; stats["count"] += 1; stats["sentiment_sum"] += sentiment\<close>.
\<close>

definition update_stats :: "author_stats \<Rightarrow> json \<Rightarrow> pyfloat \<Rightarrow> pyexn + author_stats" where
  "update_stats d author sentiment =
     (case getitem d None author of
        Inl e \<Rightarrow> Inl e
      | Inr (d1, j) \<Rightarrow>
          (let d2 = modify d1 j (\<lambda>s. s\<lparr>count := count s + 1\<rparr>);
               d3 = modify d2 j (\<lambda>s. s\<lparr>sentiment_sum := float_add (sentiment_sum s) sentiment\<rparr>)
           in Inr d3))"

text \<open>
  Lines 89--105. \<^verbatim>\<open>except Exception\<close> catches whatever the \<^verbatim>\<open>try\<close> block raises: the
  decoder's error, \<^verbatim>\<open>float\<close>'s, the \<^verbatim>\<open>TypeError\<close> of an unhashable author, and an
  exception out of \<^verbatim>\<open>update_chart\<close>.
\<close>

definition process_message :: "pylib \<Rightarrow> string \<Rightarrow> author_stats \<Rightarrow> outcome" where
  "process_message lib message d =
     (case json_loads lib message of
        Inl e \<Rightarrow> \<lparr>stats_after = d, logged = [Error_processing e], drawn = None\<rparr>
      | Inr message_dict \<Rightarrow>
          (case message_dict of
             JObj obj \<Rightarrow>
               (let author = dict_get obj ''author'' (JStr ''unknown'') in
                case py_float lib (dict_get obj ''sentiment'' (JFloat (Fin (1 / 2)))) of
                  Inl e \<Rightarrow> \<lparr>stats_after = d, logged = [Error_processing e], drawn = None\<rparr>
                | Inr sentiment \<Rightarrow>
                    (case update_stats d author sentiment of
                       Inl e \<Rightarrow> \<lparr>stats_after = d, logged = [Error_processing e], drawn = None\<rparr>
                     | Inr d3 \<Rightarrow>
                         (case update_chart d3 of
                            (d4, Inl e) \<Rightarrow>
                              \<lparr>stats_after = d4,
                               logged = [Processed author sentiment, Error_processing e],
                               drawn = None\<rparr>
                          | (d4, Inr c) \<Rightarrow>
                              \<lparr>stats_after = d4, logged = [Processed author sentiment],
                               drawn = Some c\<rparr>)))
           | other \<Rightarrow>
               \<lparr>stats_after = d, logged = [Expected_dict (type_of message_dict)], drawn = None\<rparr>))"

text \<open>
  The messages of a run, one after the other, on the same \<^verbatim>\<open>author_stats\<close>: the dict at
  the end and everything logged.
\<close>

fun process_all :: "pylib \<Rightarrow> string list \<Rightarrow> author_stats \<Rightarrow> author_stats \<times> log_record list" where
  "process_all lib [] d = (d, [])"
| "process_all lib (m # ms) d =
     (let out = process_message lib m d
      in case process_all lib ms (stats_after out) of (d', l) \<Rightarrow> (d', logged out @ l))"

text \<open>
  The updates that were accepted, read off the log: the author and the sentiment of every
  \<^verbatim>\<open>Processed message from ...\<close> record (line 100), in order.
\<close>

fun accepted :: "log_record list \<Rightarrow> (json \<times> pyfloat) list" where
  "accepted [] = []"
| "accepted (Processed a v # l) = (a, v) # accepted l"
| "accepted (Expected_dict t # l) = accepted l"
| "accepted (Error_processing e # l) = accepted l"

text \<open>The sentiments of the accepted updates whose author is the group of \<open>a\<close>, in order.\<close>

definition group_values :: "json \<Rightarrow> (json \<times> pyfloat) list \<Rightarrow> pyfloat list" where
  "group_values a ups = map snd (filter (\<lambda>(a', v). same_key a' a) ups)"



section \<open>The library: json.loads and float\<close>

text \<open>
  A decoder and a string-to-float conversion that follow CPython's \<^verbatim>\<open>json.decoder\<close>,
  \<^verbatim>\<open>json.scanner\<close> and \<^verbatim>\<open>float\<close> on text of code points below 256. Two things are not
  covered: a \<^verbatim>\<open>\uXXXX\<close> escape above \<^verbatim>\<open>\u00ff\<close> (a character \<open>string\<close> cannot hold; the
  decoder here rejects it), and the interpreter's recursion limit on deeply nested input.
\<close>

definition is_json_ws :: "char \<Rightarrow> bool" where
  "is_json_ws c = (c = CHR '' '' \<or> c = CHR 0x09 \<or> c = CHR 0x0A \<or> c = CHR 0x0D)"

definition is_digit :: "char \<Rightarrow> bool" where
  "is_digit c = ((48::nat) \<le> of_char c \<and> of_char c \<le> (57::nat))"

fun digits_val :: "nat \<Rightarrow> string \<Rightarrow> nat" where
  "digits_val acc [] = acc"
| "digits_val acc (c # cs) = digits_val (10 * acc + (of_char c - 48)) cs"

definition hex_val :: "char \<Rightarrow> nat option" where
  "hex_val c =
     (let n = of_char c :: nat in
      if 48 \<le> n \<and> n \<le> 57 then Some (n - 48)
      else if 65 \<le> n \<and> n \<le> 70 then Some (n - 55)
      else if 97 \<le> n \<and> n \<le> 102 then Some (n - 87)
      else None)"

definition escape_char :: "char \<Rightarrow> char option" where
  "escape_char e =
     (if e = CHR 0x22 then Some (CHR 0x22)
      else if e = CHR 0x5C then Some (CHR 0x5C)
      else if e = CHR ''/'' then Some (CHR ''/'')
      else if e = CHR ''b'' then Some (CHR 0x08)
      else if e = CHR ''f'' then Some (CHR 0x0C)
      else if e = CHR ''n'' then Some (CHR 0x0A)
      else if e = CHR ''r'' then Some (CHR 0x0D)
      else if e = CHR ''t'' then Some (CHR 0x09)
      else None)"

fun scanstring :: "string \<Rightarrow> pyexn + (string \<times> string)" where
  "scanstring [] = Inl JSONDecodeError"
| "scanstring (c # cs) =
     (if c = CHR 0x22 then Inr ([], cs)
      else if c = CHR 0x5C then
        (case cs of
           [] \<Rightarrow> Inl JSONDecodeError
         | e # r \<Rightarrow>
             if e = CHR ''u'' then
               (case r of
                  h1 # h2 # h3 # h4 # r' \<Rightarrow>
                    (case (hex_val h1, hex_val h2, hex_val h3, hex_val h4) of
                       (Some a, Some b, Some c, Some d) \<Rightarrow>
                         if a = 0 \<and> b = 0 then
                           (case scanstring r' of
                              Inl x \<Rightarrow> Inl x
                            | Inr (s, rest) \<Rightarrow> Inr (char_of (16 * c + d) # s, rest))
                         else Inl JSONDecodeError
                     | _ \<Rightarrow> Inl JSONDecodeError)
                | _ \<Rightarrow> Inl JSONDecodeError)
             else
               (case escape_char e of
                  None \<Rightarrow> Inl JSONDecodeError
                | Some ch \<Rightarrow>
                    (case scanstring r of
                       Inl x \<Rightarrow> Inl x
                     | Inr (s, rest) \<Rightarrow> Inr (ch # s, rest))))
      else if (of_char c :: nat) < 32 then Inl JSONDecodeError
      else (case scanstring cs of
              Inl x \<Rightarrow> Inl x
            | Inr (s, rest) \<Rightarrow> Inr (c # s, rest)))"

text \<open>The decimal value of digits, fraction digits and a signed exponent.\<close>

definition decimal_value :: "string \<Rightarrow> string \<Rightarrow> int \<Rightarrow> rat" where
  "decimal_value ip fr ex =
     of_nat (digits_val (digits_val 0 ip) fr) * 10 powi (ex - int (length fr))"

definition neg_float :: "pyfloat \<Rightarrow> pyfloat" where
  "neg_float f = (case f of Fin r \<Rightarrow> Fin (- r) | PInf \<Rightarrow> NInf | NInf \<Rightarrow> PInf | NaN \<Rightarrow> NaN)"

text \<open>
  \<^verbatim>\<open>[eE][-+]?[0-9]+\<close>: the exponent and what follows it, when the input starts with one.
\<close>

definition match_exponent :: "string \<Rightarrow> (int \<times> string) option" where
  "match_exponent s =
     (case s of
        [] \<Rightarrow> None
      | c # r \<Rightarrow>
          if c = CHR ''e'' \<or> c = CHR ''E'' then
            (let (neg, r1) =
               (case r of
                  [] \<Rightarrow> (False, r)
                | g # r' \<Rightarrow> if g = CHR ''-'' then (True, r')
                             else if g = CHR ''+'' then (False, r') else (False, r));
                 ds = takeWhile is_digit r1
             in if ds = [] then None
                else Some ((if neg then - int (digits_val 0 ds) else int (digits_val 0 ds)),
                           dropWhile is_digit r1))
          else None)"

text \<open>
  \<^verbatim>\<open>NUMBER_RE = (-?(?:0|[1-9][0-9]*))(\.[0-9]+)?([eE][-+]?[0-9]+)?\<close> and the conversion of
  the match: \<^verbatim>\<open>float\<close> when there is a fraction or an exponent, \<^verbatim>\<open>int\<close> otherwise
  (which, since CPython 3.11, refuses more than 4300 digits with a \<^verbatim>\<open>ValueError\<close>).
  \<open>None\<close> when the pattern does not match.
\<close>

definition match_number :: "string \<Rightarrow> ((pyexn + json) \<times> string) option" where
  "match_number s =
     (let (neg, s1) =
        (case s of [] \<Rightarrow> (False, s) | c # r \<Rightarrow> if c = CHR ''-'' then (True, r) else (False, s));
          ds = takeWhile is_digit s1
      in if ds = [] then None
         else
           let (ip, s2) = (if hd ds = CHR ''0'' then (''0'', tl s1) else (ds, dropWhile is_digit s1));
               (fr, s3) =
                 (case s2 of
                    [] \<Rightarrow> ([], s2)
                  | c # r \<Rightarrow>
                      if c = CHR ''.'' \<and> takeWhile is_digit r \<noteq> []
                      then (takeWhile is_digit r, dropWhile is_digit r) else ([], s2))
           in case match_exponent s3 of
                Some (ex, s4) \<Rightarrow>
                  (let f = round_double (decimal_value ip fr ex)
                   in Some (Inr (JFloat (if neg then neg_float f else f)), s4))
              | None \<Rightarrow>
                  if fr \<noteq> [] then
                    (let f = round_double (decimal_value ip fr 0)
                     in Some (Inr (JFloat (if neg then neg_float f else f)), s3))
                  else if 4300 < length ip then Some (Inl ValueError, s3)
                  else Some (Inr (JInt (if neg then - int (digits_val 0 ip) else int (digits_val 0 ip))), s3))"

text \<open>\<^verbatim>\<open>dict(pairs)\<close>: a repeated key keeps its first position and takes the last value.\<close>

fun dict_set :: "(string \<times> json) list \<Rightarrow> string \<Rightarrow> json \<Rightarrow> (string \<times> json) list" where
  "dict_set [] k v = [(k, v)]"
| "dict_set ((k', v') # d) k v = (if k' = k then (k, v) # d else (k', v') # dict_set d k v)"

definition skip_ws :: "string \<Rightarrow> string" where
  "skip_ws s = dropWhile is_json_ws s"

definition starts_with :: "string \<Rightarrow> string \<Rightarrow> bool" where
  "starts_with p s = (take (length p) s = p)"

text \<open>
  \<^verbatim>\<open>scan_once\<close>, \<^verbatim>\<open>JSONArray\<close> and \<^verbatim>\<open>JSONObject\<close> of \<^verbatim>\<open>json.decoder\<close>. The first
  argument bounds the depth of the calls and \<^verbatim>\<open>RecursionError\<close> is the answer when it is
  used up; \<^verbatim>\<open>loads\<close> below starts it at twice the length of the line plus two.
  \<open>scan_array vs s\<close> reads the elements after \<open>vs\<close>, \<open>scan_object d s\<close> the members after
  \<open>d\<close>, with \<open>s\<close> at the start of an element or of a member's name.
\<close>

fun scan_once :: "nat \<Rightarrow> string \<Rightarrow> pyexn + (json \<times> string)"
  and scan_array :: "nat \<Rightarrow> json list \<Rightarrow> string \<Rightarrow> pyexn + (json \<times> string)"
  and scan_object :: "nat \<Rightarrow> (string \<times> json) list \<Rightarrow> string \<Rightarrow> pyexn + (json \<times> string)"
where
  "scan_once 0 s = Inl RecursionError"
| "scan_once (Suc n) [] = Inl JSONDecodeError"
| "scan_once (Suc n) (c # r) =
     (if c = CHR 0x22 then
        (case scanstring r of Inl e \<Rightarrow> Inl e | Inr (str, rest) \<Rightarrow> Inr (JStr str, rest))
      else if c = CHR ''{'' then
        (case skip_ws r of
           [] \<Rightarrow> Inl JSONDecodeError
         | c' # r' \<Rightarrow>
             if c' = CHR ''}'' then Inr (JObj [], r')
             else scan_object n [] (c' # r'))
      else if c = CHR ''['' then
        (case skip_ws r of
           [] \<Rightarrow> Inl JSONDecodeError
         | c' # r' \<Rightarrow>
             if c' = CHR '']'' then Inr (JArr [], r')
             else scan_array n [] (c' # r'))
      else if starts_with ''null'' (c # r) then Inr (JNull, drop 4 (c # r))
      else if starts_with ''true'' (c # r) then Inr (JBool True, drop 4 (c # r))
      else if starts_with ''false'' (c # r) then Inr (JBool False, drop 5 (c # r))
      else
        (case match_number (c # r) of
           Some (Inl e, rest) \<Rightarrow> Inl e
         | Some (Inr v, rest) \<Rightarrow> Inr (v, rest)
         | None \<Rightarrow>
             if starts_with ''NaN'' (c # r) then Inr (JFloat NaN, drop 3 (c # r))
             else if starts_with ''Infinity'' (c # r) then Inr (JFloat PInf, drop 8 (c # r))
             else if starts_with ''-Infinity'' (c # r) then Inr (JFloat NInf, drop 9 (c # r))
             else Inl JSONDecodeError))"
| "scan_array 0 vs s = Inl RecursionError"
| "scan_array (Suc n) vs s =
     (case scan_once n s of
        Inl e \<Rightarrow> Inl e
      | Inr (v, rest) \<Rightarrow>
          (case skip_ws rest of
             [] \<Rightarrow> Inl JSONDecodeError
           | c # r \<Rightarrow>
               if c = CHR '']'' then Inr (JArr (vs @ [v]), r)
               else if c = CHR '','' then scan_array n (vs @ [v]) (skip_ws r)
               else Inl JSONDecodeError))"
| "scan_object 0 d s = Inl RecursionError"
| "scan_object (Suc n) d s =
     (case s of
        [] \<Rightarrow> Inl JSONDecodeError
      | q # r0 \<Rightarrow>
          if q \<noteq> CHR 0x22 then Inl JSONDecodeError
          else
            (case scanstring r0 of
               Inl e \<Rightarrow> Inl e
             | Inr (key, r1) \<Rightarrow>
                 (case skip_ws r1 of
                    [] \<Rightarrow> Inl JSONDecodeError
                  | c # r2 \<Rightarrow>
                      if c \<noteq> CHR '':'' then Inl JSONDecodeError
                      else
                        (case scan_once n (skip_ws r2) of
                           Inl e \<Rightarrow> Inl e
                         | Inr (v, r3) \<Rightarrow>
                             (case skip_ws r3 of
                                [] \<Rightarrow> Inl JSONDecodeError
                              | c' # r4 \<Rightarrow>
                                  if c' = CHR ''}'' then Inr (JObj (dict_set d key v), r4)
                                  else if c' = CHR '','' then
                                    scan_object n (dict_set d key v) (skip_ws r4)
                                  else Inl JSONDecodeError)))))"

text \<open>
  \<^verbatim>\<open>json.loads(s)\<close>: leading whitespace, one value, trailing whitespace, end of text.
\<close>

definition loads :: "string \<Rightarrow> pyexn + json" where
  "loads s =
     (case scan_once (2 * length s + 2) (skip_ws s) of
        Inl e \<Rightarrow> Inl e
      | Inr (v, rest) \<Rightarrow> if skip_ws rest = [] then Inr v else Inl JSONDecodeError)"

text \<open>
  \<^verbatim>\<open>str.isspace\<close> on a code point below 256, the characters \<^verbatim>\<open>str.strip()\<close> removes.
\<close>

definition is_space :: "char \<Rightarrow> bool" where
  "is_space c =
     (let n = of_char c :: nat
      in (9 \<le> n \<and> n \<le> 13) \<or> (28 \<le> n \<and> n \<le> 32) \<or> n = 133 \<or> n = 160)"

definition strip :: "string \<Rightarrow> string" where
  "strip s = rev (dropWhile is_space (rev (dropWhile is_space s)))"

definition lower :: "char \<Rightarrow> char" where
  "lower c = (let n = of_char c :: nat in if 65 \<le> n \<and> n \<le> 90 then char_of (n + 32) else c)"

text \<open>
  \<^verbatim>\<open>digitpart ::= digit (["_"] digit)*\<close>: the digits read (underscores dropped) and the
  rest; \<open>after_digit\<close> tells whether the previous character was a digit.
\<close>

fun digitpart :: "bool \<Rightarrow> string \<Rightarrow> string \<times> string" where
  "digitpart after_digit [] = ([], [])"
| "digitpart after_digit [c] = (if is_digit c then ([c], []) else ([], [c]))"
| "digitpart after_digit (c # c' # r) =
     (if is_digit c then (case digitpart True (c' # r) of (ds, rest) \<Rightarrow> (c # ds, rest))
      else if c = CHR ''_'' \<and> after_digit \<and> is_digit c' then digitpart False (c' # r)
      else ([], c # c' # r))"

text \<open>
  \<^verbatim>\<open>float(s)\<close> on a \<^verbatim>\<open>str\<close>: surrounding whitespace is stripped; then an optional sign
  and \<^verbatim>\<open>inf\<close>, \<^verbatim>\<open>infinity\<close>, \<^verbatim>\<open>nan\<close> in any case, or a decimal number
  \<^verbatim>\<open>[digitpart] "." digitpart | digitpart ["."]\<close> with an optional exponent
  \<^verbatim>\<open>("e" | "E") ["+" | "-"] digitpart\<close>; anything else is a \<^verbatim>\<open>ValueError\<close>.
\<close>

definition float_of_str :: "string \<Rightarrow> pyexn + pyfloat" where
  "float_of_str s =
     (let t = strip s;
          (neg, u) =
            (case t of
               [] \<Rightarrow> (False, t)
             | c # r \<Rightarrow> if c = CHR ''-'' then (True, r)
                          else if c = CHR ''+'' then (False, r) else (False, t));
          sg = (\<lambda>f. if neg then neg_float f else f);
          w = map lower u
      in if w = ''inf'' \<or> w = ''infinity'' then Inr (sg PInf)
         else if w = ''nan'' then Inr NaN
         else
           let (ip, u1) = digitpart False u;
               (dot, fr, u2) =
                 (case u1 of
                    [] \<Rightarrow> (False, [], u1)
                  | c # r \<Rightarrow>
                      if c = CHR ''.'' then (case digitpart False r of (ds, rest) \<Rightarrow> (True, ds, rest))
                      else (False, [], u1))
           in if ip = [] \<and> fr = [] then Inl ValueError
              else
                (case u2 of
                   [] \<Rightarrow> Inr (sg (round_double (decimal_value ip fr 0)))
                 | c # r \<Rightarrow>
                     if c = CHR ''e'' \<or> c = CHR ''E'' then
                       (let (eneg, r1) =
                          (case r of
                             [] \<Rightarrow> (False, r)
                           | g # r' \<Rightarrow> if g = CHR ''-'' then (True, r')
                                        else if g = CHR ''+'' then (False, r') else (False, r))
                        in case digitpart False r1 of
                             (ds, rest) \<Rightarrow>
                               if ds = [] \<or> rest \<noteq> [] then Inl ValueError
                               else Inr (sg (round_double
                                      (decimal_value ip fr
                                         (if eneg then - int (digits_val 0 ds)
                                          else int (digits_val 0 ds))))))
                     else Inl ValueError))"

text \<open>CPython's two functions, for lines and strings of code points below 256.\<close>

definition cpython :: pylib where
  "cpython = \<lparr>json_loads = loads, str_to_float = float_of_str\<rparr>"

section \<open>main\<close>

text \<open>
  The file object of line 119: the text of the file, which the producer extends, and the
  read position. \<^verbatim>\<open>file.seek(0, os.SEEK_END)\<close> puts the position at the end. The text is
  what the text layer delivers: decoded, with every line ending already a single newline.
\<close>

record tail_file =
  content :: string
  pos :: nat

definition open_file :: "string \<Rightarrow> tail_file" where
  "open_file text = \<lparr>content = text, pos = 0\<rparr>"

definition seek_end :: "tail_file \<Rightarrow> tail_file" where
  "seek_end f = f\<lparr>pos := length (content f)\<rparr>"

text \<open>
  \<^verbatim>\<open>file.readline()\<close>: the text from the position up to and including the next newline,
  or up to the end of the file when there is none; the position moves past what is returned.
\<close>

definition readline :: "tail_file \<Rightarrow> string \<times> tail_file" where
  "readline f =
     (let rest = drop (pos f) (content f);
          l = takeWhile (\<lambda>c. c \<noteq> CHR 0x0A) rest;
          line = (if length l < length rest then l @ [CHR 0x0A] else l)
      in (line, f\<lparr>pos := pos f + length line\<rparr>))"

text \<open>The producer appends to the file.\<close>

definition append_text :: "string \<Rightarrow> tail_file \<Rightarrow> tail_file" where
  "append_text s f = f\<lparr>content := content f @ s\<rparr>"

text \<open>
  What the loop of lines 123--128 has done so far: the file object, \<^verbatim>\<open>author_stats\<close>, the
  arguments of the calls of \<^verbatim>\<open>process_message\<close> in order, what was logged, the number of
  iterations and the number of \<^verbatim>\<open>time.sleep(0.5)\<close>.
\<close>

record loop_state =
  fileobj :: tail_file
  author_stats :: author_stats
  handled :: "string list"
  logs :: "log_record list"
  iterations :: nat
  sleeps :: nat

text \<open>One iteration of \<^verbatim>\<open>while True\<close>.\<close>

definition iteration :: "pylib \<Rightarrow> loop_state \<Rightarrow> loop_state" where
  "iteration lib st =
     (let (line, f) = readline (fileobj st) in
      if strip line \<noteq> [] then
        (let out = process_message lib line (author_stats st)
         in st\<lparr>fileobj := f, author_stats := stats_after out, handled := handled st @ [line],
                logs := logs st @ logged out, iterations := iterations st + 1\<rparr>)
      else st\<lparr>fileobj := f, iterations := iterations st + 1, sleeps := sleeps st + 1\<rparr>)"

text \<open>
  What happens around the loop: the producer writes, the loop runs one iteration, or the
  user interrupts (\<^verbatim>\<open>KeyboardInterrupt\<close>). The result tells whether the loop was left.
\<close>

datatype event = Write string | Poll | Interrupt

fun tailing :: "pylib \<Rightarrow> event list \<Rightarrow> loop_state \<Rightarrow> loop_state \<times> bool" where
  "tailing lib [] st = (st, False)"
| "tailing lib (Write s # es) st = tailing lib es (st\<lparr>fileobj := append_text s (fileobj st)\<rparr>)"
| "tailing lib (Poll # es) st = tailing lib es (iteration lib st)"
| "tailing lib (Interrupt # es) st = (st, True)"

text \<open>
  \<^verbatim>\<open>main()\<close>, on the text of \<^verbatim>\<open>DATA_FILE\<close> (\<open>None\<close> when the file does not exist) and the
  events that follow. \<open>exit_status\<close> is \<open>None\<close> while the loop is still running;
  \<open>finalized\<close> tells that the \<^verbatim>\<open>finally\<close> block (\<^verbatim>\<open>plt.ioff(); plt.show()\<close>) has run.
\<close>

record run =
  exit_status :: "nat option"
  finalized :: bool
  loop :: loop_state

definition start :: "string \<Rightarrow> loop_state" where
  "start text =
     \<lparr>fileobj = seek_end (open_file text), author_stats = [], handled = [], logs = [],
      iterations = 0, sleeps = 0\<rparr>"

definition main :: "pylib \<Rightarrow> string option \<Rightarrow> event list \<Rightarrow> run" where
  "main lib data_file es =
     (case data_file of
        None \<Rightarrow> \<lparr>exit_status = Some 1, finalized = False, loop = start []\<rparr>
      | Some text \<Rightarrow>
          (case tailing lib es (start text) of
             (st, True) \<Rightarrow> \<lparr>exit_status = Some 0, finalized = True, loop = st\<rparr>
           | (st, False) \<Rightarrow> \<lparr>exit_status = None, finalized = False, loop = st\<rparr>))"

section \<open>Properties\<close>

subsection \<open>The rounding\<close>

text \<open>
  \<open>floor_log2\<close> is the binary exponent, \<open>round_half_even\<close> picks the nearest integer and
  the even one on a tie, and \<open>round_double\<close> of a positive number is the multiple of the unit
  in the last place that these two determine.
\<close>

lemma bitlen_powi_bounds:
  assumes "0 < (p::int)"
  shows "(2::rat) powi (bitlen p - 1) \<le> of_int p" and "of_int p < (2::rat) powi (bitlen p)"
proof -
  from bitlen_bounds [OF assms] have l: "2 ^ nat (bitlen p - 1) \<le> p" and u: "p < 2 ^ nat (bitlen p)"
    by auto
  have b1: "1 \<le> bitlen p" using assms by (auto simp: bitlen_alt_def)
  from l have "(of_int (2 ^ nat (bitlen p - 1)) :: rat) \<le> of_int p" by (simp only: of_int_le_iff)
  then show "(2::rat) powi (bitlen p - 1) \<le> of_int p"
    using b1 by (simp add: power_int_def)
  from u have "(of_int p :: rat) < of_int (2 ^ nat (bitlen p))" by (simp only: of_int_less_iff)
  then show "of_int p < (2::rat) powi (bitlen p)"
    using b1 by (simp add: power_int_def)
qed

lemma floor_log2_bounds:
  assumes "0 < a"
  shows "2 powi floor_log2 a \<le> a \<and> a < 2 powi (floor_log2 a + 1)"
proof -
  obtain p d where pd: "quotient_of a = (p, d)" by (cases "quotient_of a")
  then have d: "0 < d" and a: "a = of_int p / of_int d"
    by (auto dest: quotient_of_denom_pos quotient_of_div)
  with assms have p: "0 < p" by (simp add: zero_less_divide_iff)
  let ?e = "bitlen p - bitlen d"
  have "a < 2 powi bitlen p / 2 powi (bitlen d - 1)"
    unfolding a using bitlen_powi_bounds [OF p] bitlen_powi_bounds [OF d] p d
    by (intro frac_less) auto
  also have "\<dots> = 2 powi (?e + 1)"
    by (simp add: power_int_diff [symmetric] algebra_simps)
  finally have up: "a < 2 powi (?e + 1)" .
  show ?thesis
  proof (cases "2 powi ?e \<le> a")
    case True
    with up pd show ?thesis by (simp add: floor_log2_def)
  next
    case False
    have "2 powi (bitlen p - 1) / 2 powi bitlen d \<le> a"
      unfolding a using bitlen_powi_bounds [OF p] bitlen_powi_bounds [OF d] p d
      by (intro frac_le) auto
    also have "2 powi (bitlen p - 1) / 2 powi bitlen d = (2::rat) powi (?e - 1)"
      by (simp add: power_int_diff [symmetric] algebra_simps)
    finally have "2 powi (?e - 1) \<le> a" .
    with False pd show ?thesis by (simp add: floor_log2_def)
  qed
qed

lemma floor_log2_eq:
  assumes "0 < a" "2 powi e \<le> a" "a < 2 powi (e + 1)"
  shows "floor_log2 a = e"
proof -
  let ?f = "floor_log2 a"
  from floor_log2_bounds [OF assms(1)] have l: "2 powi ?f \<le> a" and u: "a < 2 powi (?f + 1)"
    by auto
  have mono: "\<And>m n. (2::rat) powi m < 2 powi n \<Longrightarrow> m < n"
  proof (rule ccontr)
    fix m n :: int
    assume lt: "(2::rat) powi m < 2 powi n" and "\<not> m < n"
    then have "n \<le> m" by simp
    then have "(2::rat) powi n \<le> 2 powi m" by (rule power_int_increasing) simp
    with lt show False by simp
  qed
  from l assms(3) have "(2::rat) powi ?f < 2 powi (e + 1)" by simp
  then have 1: "?f < e + 1" by (rule mono)
  from assms(2) u have "(2::rat) powi e < 2 powi (?f + 1)" by simp
  then have 2: "e < ?f + 1" by (rule mono)
  from 1 2 show ?thesis by simp
qed

lemma round_half_even_eq:
  assumes "\<bar>x - of_int m\<bar> < 1 / 2 \<or> (\<bar>x - of_int m\<bar> = 1 / 2 \<and> even m)"
  shows "round_half_even x = m"
proof -
  let ?f = "\<lfloor>x\<rfloor>"
  have f: "of_int ?f \<le> x" "x < of_int ?f + 1" by linarith+
  from assms have near: "\<bar>x - of_int m\<bar> \<le> 1 / 2" by auto
  then have "of_int m - 1 / 2 \<le> x" "x \<le> of_int m + 1 / 2" by linarith+
  with f have "(of_int m :: rat) < of_int ?f + 2" "(of_int ?f :: rat) < of_int m + 1" by linarith+
  then have "m < ?f + 2" "?f < m + 1" by (simp_all only: of_int_less_iff [symmetric, where ?'a = rat] of_int_add of_int_numeral of_int_1)
  then consider "m = ?f" | "m = ?f + 1" by linarith
  then show ?thesis
  proof cases
    case 1
    with assms show ?thesis
      by (auto simp: round_half_even_def Let_def abs_if split: if_splits)
  next
    case 2
    with assms show ?thesis
      by (auto simp: round_half_even_def Let_def abs_if split: if_splits)
  qed
qed

lemma round_double_pos:
  assumes "0 < a" "2 powi e \<le> a" "a < 2 powi (e + 1)"
    and "q = max (e - 52) (- 1074)"
    and "\<bar>a / 2 powi q - of_int m\<bar> < 1 / 2 \<or> (\<bar>a / 2 powi q - of_int m\<bar> = 1 / 2 \<and> even m)"
    and "of_int m * 2 powi q < (2::rat) powi 1024"
  shows "round_double a = Fin (of_int m * 2 powi q)"
proof -
  have e: "floor_log2 a = e" using assms(1-3) by (rule floor_log2_eq)
  have m: "round_half_even (a / 2 powi q) = m" using assms(5) by (rule round_half_even_eq)
  from assms(1) have "\<bar>a\<bar> = a" by simp
  with assms(1,4,6) e m show ?thesis
    by (simp add: round_double_def Let_def del: power_int_numeral)
qed

text \<open>
  The same function with \<open>2^1024\<close> written out, so that a concrete input is evaluated
  without building the power.
\<close>

lemma round_double_code [code]:
  "round_double x =
     (if x = 0 then Fin 0
      else let a = \<bar>x\<bar>;
               q = max (floor_log2 a - 52) (- 1074);
               y = of_int (round_half_even (a / 2 powi q)) * 2 powi q
           in if 179769313486231590772930519078902473361797697894230657273430081157732675805500963132708477322407536021120113879871393357658789768814416622492847430639474124377767893424865485276302219601246094119453082952085005768838150682342462881473913110540827237163350510684586298239947245938479716304835356329624224137216 \<le> y
              then (if 0 < x then PInf else NInf)
              else Fin (if 0 < x then y else - y))"
  by (simp add: round_double_def)

subsection \<open>update_chart reads only\<close>

text \<open>
  A key taken from \<^verbatim>\<open>author_stats.keys()\<close> is found again by the lookup, so the
  defaultdict never inserts during \<^verbatim>\<open>update_chart\<close>.
\<close>

lemma lookdict_ident:
  "j \<le> i \<Longrightarrow> i < j + length d \<Longrightarrow> \<exists>j'. lookdict j (Some i) a d = Some j'"
  by (induction j "Some i" a d rule: lookdict.induct) auto

lemma getitem_ident:
  "i < length d \<Longrightarrow> getitem d (Some i) a = Inr (d', j) \<Longrightarrow> d' = d"
  using lookdict_ident [of 0 i d a]
  by (auto simp: getitem_def split: if_splits option.splits)

lemma read_stats_ident:
  "i < length d \<Longrightarrow> read_stats d i a = Inr (d', s) \<Longrightarrow> d' = d"
  by (auto simp: read_stats_def split: sum.splits dest: getitem_ident)

lemma chart_counts_frame:
  "i + length as \<le> length d \<Longrightarrow> chart_counts d i as = Inr (d', cs) \<Longrightarrow> d' = d"
proof (induction as arbitrary: d i d' cs)
  case Nil
  then show ?case by simp
next
  case (Cons a as)
  from Cons.prems obtain d1 s d2 cs' where
    r: "read_stats d i a = Inr (d1, s)" and c: "chart_counts d1 (Suc i) as = Inr (d2, cs')"
    and e: "d' = d2"
    by (auto split: sum.splits)
  from Cons.prems(1) have "i < length d" by simp
  with r have "d1 = d" by (rule read_stats_ident [rotated])
  with c Cons.IH [of "Suc i" d d2 cs'] Cons.prems(1) e show ?case by simp
qed

lemma chart_avg_frame:
  "i < length d \<Longrightarrow> chart_avg d i a = Inr (d', q) \<Longrightarrow> d' = d"
  by (auto simp: chart_avg_def split: sum.splits if_splits dest: read_stats_ident)

lemma chart_avgs_frame:
  "i + length as \<le> length d \<Longrightarrow> chart_avgs d i as = Inr (d', qs) \<Longrightarrow> d' = d"
proof (induction as arbitrary: d i d' qs)
  case Nil
  then show ?case by simp
next
  case (Cons a as)
  from Cons.prems obtain d1 q d2 qs' where
    r: "chart_avg d i a = Inr (d1, q)" and c: "chart_avgs d1 (Suc i) as = Inr (d2, qs')"
    and e: "d' = d2"
    by (auto split: sum.splits)
  from Cons.prems(1) have "i < length d" by simp
  with r have "d1 = d" by (rule chart_avg_frame [rotated])
  with c Cons.IH [of "Suc i" d d2 qs'] Cons.prems(1) e show ?case by simp
qed

lemma update_chart_frame: "fst (update_chart d) = d"
proof -
  have c: "\<And>d1 cs. chart_counts d 0 (map fst d) = Inr (d1, cs) \<Longrightarrow> d1 = d"
    by (rule chart_counts_frame [of 0 "map fst d" d]) auto
  have a: "\<And>d2 qs. chart_avgs d 0 (map fst d) = Inr (d2, qs) \<Longrightarrow> d2 = d"
    by (rule chart_avgs_frame [of 0 "map fst d" d]) auto
  show ?thesis
    by (auto simp: update_chart_def Let_def split: sum.splits dest: c a)
qed

text \<open>
  C9. Rendering does not mutate the aggregate state: for every \<^verbatim>\<open>author_stats\<close>, the dict
  after \<^verbatim>\<open>update_chart()\<close> is the dict before it, and a second call with no update in
  between computes the same authors, counts and averages (or raises the same exception).
\<close>

theorem update_chart_pure:
  "fst (update_chart d) = d \<and> update_chart (fst (update_chart d)) = update_chart d"
  by (simp add: update_chart_frame)

subsection \<open>Rejected lines\<close>

lemma process_message_undecoded:
  "json_loads lib m = Inl e \<Longrightarrow>
   process_message lib m d = \<lparr>stats_after = d, logged = [Error_processing e], drawn = None\<rparr>"
  by (simp add: process_message_def)

lemma process_message_not_dict:
  "json_loads lib m = Inr v \<Longrightarrow> type_of v \<noteq> Dict_t \<Longrightarrow>
   process_message lib m d = \<lparr>stats_after = d, logged = [Expected_dict (type_of v)], drawn = None\<rparr>"
  by (cases v) (simp_all add: process_message_def)

lemma process_message_bad_sentiment:
  "json_loads lib m = Inr (JObj obj) \<Longrightarrow>
   py_float lib (dict_get obj ''sentiment'' (JFloat (Fin (1 / 2)))) = Inl e \<Longrightarrow>
   process_message lib m d = \<lparr>stats_after = d, logged = [Error_processing e], drawn = None\<rparr>"
  by (simp add: process_message_def)

lemma process_message_unchanged:
  "accepted (logged (process_message lib m d)) = [] \<Longrightarrow>
   stats_after (process_message lib m d) = d \<and> drawn (process_message lib m d) = None"
  by (auto simp: process_message_def Let_def split: sum.splits json.splits prod.splits)

text \<open>
  C10. A line that is rejected leaves \<^verbatim>\<open>author_stats\<close> as it was and draws nothing: when
  \<^verbatim>\<open>json.loads\<close> raises, when the decoded value is not a dict, when \<^verbatim>\<open>float\<close> raises on the
  sentiment, and in general whenever no \<^verbatim>\<open>Processed message\<close> record is logged for it.
\<close>

theorem rejected_line_leaves_stats:
  assumes "(\<exists>e. json_loads lib m = Inl e)
     \<or> (\<exists>v. json_loads lib m = Inr v \<and> type_of v \<noteq> Dict_t)
     \<or> (\<exists>obj e. json_loads lib m = Inr (JObj obj)
           \<and> py_float lib (dict_get obj ''sentiment'' (JFloat (Fin (1 / 2)))) = Inl e)
     \<or> accepted (logged (process_message lib m d)) = []"
  shows "stats_after (process_message lib m d) = d \<and> drawn (process_message lib m d) = None"
  using assms
  by (auto simp: process_message_undecoded process_message_not_dict
      process_message_bad_sentiment process_message_unchanged)

theorem rejected_line_leaves_stats_witness:
  "json_loads cpython ''not json'' = Inl JSONDecodeError
   \<and> stats_after (process_message cpython ''not json''
        [(JStr ''alice'', \<lparr>count = 1, sentiment_sum = Fin (1 / 2)\<rparr>)])
      = [(JStr ''alice'', \<lparr>count = 1, sentiment_sum = Fin (1 / 2)\<rparr>)]
   \<and> json_loads cpython ''[1,2,3]'' = Inr (JArr [JInt 1, JInt 2, JInt 3])
   \<and> stats_after (process_message cpython ''[1,2,3]''
        [(JStr ''alice'', \<lparr>count = 1, sentiment_sum = Fin (1 / 2)\<rparr>)])
      = [(JStr ''alice'', \<lparr>count = 1, sentiment_sum = Fin (1 / 2)\<rparr>)]
   \<and> json_loads cpython ''{\"sentiment\":\"bad\"}'' = Inr (JObj [(''sentiment'', JStr ''bad'')])
   \<and> py_float cpython (dict_get [(''sentiment'', JStr ''bad'')] ''sentiment'' (JFloat (Fin (1 / 2))))
      = Inl ValueError
   \<and> stats_after (process_message cpython ''{\"sentiment\":\"bad\"}''
        [(JStr ''alice'', \<lparr>count = 1, sentiment_sum = Fin (1 / 2)\<rparr>)])
      = [(JStr ''alice'', \<lparr>count = 1, sentiment_sum = Fin (1 / 2)\<rparr>)]"
proof -
  let ?d = "[(JStr ''alice'', \<lparr>count = 1, sentiment_sum = Fin (1 / 2)\<rparr>)]"
  have 1: "json_loads cpython ''not json'' = Inl JSONDecodeError" by code_simp
  have 2: "json_loads cpython ''[1,2,3]'' = Inr (JArr [JInt 1, JInt 2, JInt 3])" by code_simp
  have 3: "json_loads cpython ''{\"sentiment\":\"bad\"}'' = Inr (JObj [(''sentiment'', JStr ''bad'')])"
    by code_simp
  have 4: "py_float cpython (dict_get [(''sentiment'', JStr ''bad'')] ''sentiment'' (JFloat (Fin (1 / 2))))
      = Inl ValueError" by code_simp
  from 1 rejected_line_leaves_stats [of cpython "''not json''" ?d]
  have a: "stats_after (process_message cpython ''not json'' ?d) = ?d" by blast
  from 2 rejected_line_leaves_stats [of cpython "''[1,2,3]''" ?d]
  have b: "stats_after (process_message cpython ''[1,2,3]'' ?d) = ?d" by auto
  from 3 4 rejected_line_leaves_stats [of cpython "''{\"sentiment\":\"bad\"}''" ?d]
  have c: "stats_after (process_message cpython ''{\"sentiment\":\"bad\"}'' ?d) = ?d" by blast
  from 1 2 3 4 a b c show ?thesis by blast
qed

subsection \<open>What is logged for a rejected line\<close>

text \<open>
  C4, as the code has it. A line that decodes to something other than a dict is reported by
  \<^verbatim>\<open>Expected dict, got <type>\<close>, with the type of the decoded value. A line that fails to
  decode and a dict whose sentiment \<^verbatim>\<open>float\<close> refuses are both reported by the handler of
  \<^verbatim>\<open>except Exception\<close>, \<^verbatim>\<open>Error processing message: <exception>\<close>, which carries the
  exception and no decoded type. Nothing else is logged for any of the three.
\<close>

theorem rejection_diagnostics:
  "(json_loads lib m = Inl e \<longrightarrow> logged (process_message lib m d) = [Error_processing e])
   \<and> (json_loads lib m = Inr v \<and> type_of v \<noteq> Dict_t \<longrightarrow>
        logged (process_message lib m d) = [Expected_dict (type_of v)])
   \<and> (json_loads lib m = Inr (JObj obj)
        \<and> py_float lib (dict_get obj ''sentiment'' (JFloat (Fin (1 / 2)))) = Inl e \<longrightarrow>
        logged (process_message lib m d) = [Error_processing e])"
  by (simp add: process_message_undecoded process_message_not_dict process_message_bad_sentiment)

theorem rejection_diagnostics_witness:
  "json_loads cpython ''[1,2,3]'' = Inr (JArr [JInt 1, JInt 2, JInt 3])
   \<and> type_of (JArr [JInt 1, JInt 2, JInt 3]) = List_t
   \<and> logged (process_message cpython ''[1,2,3]'' []) = [Expected_dict List_t]
   \<and> json_loads cpython ''{\"sentiment\":\"bad\"}'' = Inr (JObj [(''sentiment'', JStr ''bad'')])
   \<and> py_float cpython (dict_get [(''sentiment'', JStr ''bad'')] ''sentiment'' (JFloat (Fin (1 / 2))))
      = Inl ValueError
   \<and> logged (process_message cpython ''{\"sentiment\":\"bad\"}'' []) = [Error_processing ValueError]"
proof -
  have 2: "json_loads cpython ''[1,2,3]'' = Inr (JArr [JInt 1, JInt 2, JInt 3])" by code_simp
  have 3: "json_loads cpython ''{\"sentiment\":\"bad\"}'' = Inr (JObj [(''sentiment'', JStr ''bad'')])"
    by code_simp
  have 4: "py_float cpython (dict_get [(''sentiment'', JStr ''bad'')] ''sentiment'' (JFloat (Fin (1 / 2))))
      = Inl ValueError" by code_simp
  from 2 rejection_diagnostics [of cpython "''[1,2,3]''" _ "[]" "JArr [JInt 1, JInt 2, JInt 3]"]
  have b: "logged (process_message cpython ''[1,2,3]'' []) = [Expected_dict List_t]" by simp
  from 3 4 rejection_diagnostics [of cpython "''{\"sentiment\":\"bad\"}''" ValueError "[]" _
      "[(''sentiment'', JStr ''bad'')]"]
  have c: "logged (process_message cpython ''{\"sentiment\":\"bad\"}'' []) = [Error_processing ValueError]"
    by simp
  from 2 3 4 b c show ?thesis by simp
qed

text \<open>
  C4 as the specification states it puts the undecodable line with the non-dict one, under
  a diagnostic that names the decoded type. On \<^verbatim>\<open>not json\<close> the code logs the decoder's exception
  instead, as it does for \<^verbatim>\<open>{"sentiment":"bad"}\<close>; only \<^verbatim>\<open>[1,2,3]\<close> gets the type.
\<close>

theorem undecodable_line_logs_exception:
  "logged (process_message cpython ''not json'' []) = [Error_processing JSONDecodeError]
   \<and> logged (process_message cpython ''[1,2,3]'' []) = [Expected_dict List_t]
   \<and> logged (process_message cpython ''{\"sentiment\":\"bad\"}'' []) = [Error_processing ValueError]"
  by code_simp

subsection \<open>Defaults of author and sentiment\<close>

lemma update_stats_hashable:
  "hashable a \<Longrightarrow> \<exists>d'. update_stats d a v = Inr d'"
  by (simp add: update_stats_def getitem_def Let_def split: option.splits)

lemma process_message_dict:
  assumes "json_loads lib m = Inr (JObj obj)"
    and "py_float lib (dict_get obj ''sentiment'' (JFloat (Fin (1 / 2)))) = Inr v"
    and "update_stats d (dict_get obj ''author'' (JStr ''unknown'')) v = Inr d'"
  shows "stats_after (process_message lib m d) = d'"
    and "accepted (logged (process_message lib m d))
         = [(dict_get obj ''author'' (JStr ''unknown''), v)]"
proof -
  obtain r where r: "update_chart d' = (d', r)"
    using update_chart_frame [of d'] by (cases "update_chart d'") simp
  from assms r show "stats_after (process_message lib m d) = d'"
    by (cases r) (simp_all add: process_message_def Let_def)
  from assms r show "accepted (logged (process_message lib m d))
         = [(dict_get obj ''author'' (JStr ''unknown''), v)]"
    by (cases r) (simp_all add: process_message_def Let_def)
qed

lemma process_message_unhashable:
  assumes "json_loads lib m = Inr (JObj obj)"
    and "py_float lib (dict_get obj ''sentiment'' (JFloat (Fin (1 / 2)))) = Inr v"
    and "update_stats d (dict_get obj ''author'' (JStr ''unknown'')) v = Inl e"
  shows "process_message lib m d = \<lparr>stats_after = d, logged = [Error_processing e], drawn = None\<rparr>"
  using assms by (simp add: process_message_def Let_def)

lemma accepted_dict:
  assumes "json_loads lib m = Inr (JObj obj)"
    and "(a, v) \<in> set (accepted (logged (process_message lib m d)))"
  shows "a = dict_get obj ''author'' (JStr ''unknown'')"
    and "py_float lib (dict_get obj ''sentiment'' (JFloat (Fin (1 / 2)))) = Inr v"
proof -
  let ?s = "py_float lib (dict_get obj ''sentiment'' (JFloat (Fin (1 / 2))))"
  let ?a = "dict_get obj ''author'' (JStr ''unknown'')"
  have "a = ?a \<and> ?s = Inr v"
  proof (cases ?s)
    case (Inl e)
    with assms show ?thesis by (simp add: process_message_bad_sentiment)
  next
    case (Inr w)
    show ?thesis
    proof (cases "update_stats d ?a w")
      case (Inl e)
      with assms Inr show ?thesis by (simp add: process_message_unhashable)
    next
      case r: (Inr d')
      with assms Inr show ?thesis by (simp add: process_message_dict(2))
    qed
  qed
  then show "a = ?a" and "?s = Inr v" by simp_all
qed

text \<open>
  C3, as the code has it. For a decoded object, the group of the update is \<^verbatim>\<open>"unknown"\<close>
  whenever the \<^verbatim>\<open>author\<close> key is absent; when the key is present its value is the group,
  whatever its type. The value is 0.5 whenever the \<^verbatim>\<open>sentiment\<close> key is absent. An
  object with neither key is always accepted, with group \<^verbatim>\<open>"unknown"\<close> and value 0.5.
\<close>

theorem author_and_sentiment_defaults:
  assumes "json_loads lib m = Inr (JObj obj)"
  shows "(\<forall>a v. (a, v) \<in> set (accepted (logged (process_message lib m d))) \<longrightarrow>
            (map_of obj ''author'' = None \<longrightarrow> a = JStr ''unknown'')
          \<and> (\<forall>x. map_of obj ''author'' = Some x \<longrightarrow> a = x)
          \<and> (map_of obj ''sentiment'' = None \<longrightarrow> v = Fin (1 / 2)))
       \<and> (map_of obj ''author'' = None \<and> map_of obj ''sentiment'' = None \<longrightarrow>
            accepted (logged (process_message lib m d)) = [(JStr ''unknown'', Fin (1 / 2))])"
proof (intro conjI allI impI)
  fix a v
  assume av: "(a, v) \<in> set (accepted (logged (process_message lib m d)))"
  note facts = accepted_dict [OF assms av]
  show "a = JStr ''unknown''" if "map_of obj ''author'' = None"
    using facts(1) that by (simp add: dict_get_def)
  show "a = x" if "map_of obj ''author'' = Some x" for x
    using facts(1) that by (simp add: dict_get_def)
  show "v = Fin (1 / 2)" if "map_of obj ''sentiment'' = None"
    using facts(2) that by (simp add: dict_get_def)
next
  assume none: "map_of obj ''author'' = None \<and> map_of obj ''sentiment'' = None"
  then have s: "py_float lib (dict_get obj ''sentiment'' (JFloat (Fin (1 / 2)))) = Inr (Fin (1 / 2))"
    and a: "dict_get obj ''author'' (JStr ''unknown'') = JStr ''unknown''"
    by (simp_all add: dict_get_def)
  have "hashable (JStr ''unknown'')" by (simp add: hashable_def)
  then obtain d' where "update_stats d (JStr ''unknown'') (Fin (1 / 2)) = Inr d'"
    using update_stats_hashable by blast
  with process_message_dict(2) [OF assms s, of d d'] a
  show "accepted (logged (process_message lib m d)) = [(JStr ''unknown'', Fin (1 / 2))]"
    by simp
qed

theorem author_and_sentiment_defaults_witness:
  "json_loads cpython ''{}'' = Inr (JObj [])
   \<and> accepted (logged (process_message cpython ''{}'' [])) = [(JStr ''unknown'', Fin (1 / 2))]
   \<and> stats_after (process_message cpython ''{}'' [])
      = [(JStr ''unknown'', \<lparr>count = 1, sentiment_sum = Fin (1 / 2)\<rparr>)]"
proof -
  have 1: "json_loads cpython ''{}'' = Inr (JObj [])" by code_simp
  have 2: "stats_after (process_message cpython ''{}'' [])
      = [(JStr ''unknown'', \<lparr>count = 1, sentiment_sum = Fin (1 / 2)\<rparr>)]" by code_simp
  have "map_of ([] :: (string \<times> json) list) ''author'' = None
    \<and> map_of ([] :: (string \<times> json) list) ''sentiment'' = None" by simp
  with author_and_sentiment_defaults [OF 1, of "[]", THEN conjunct2]
  have 3: "accepted (logged (process_message cpython ''{}'' [])) = [(JStr ''unknown'', Fin (1 / 2))]"
    by (rule mp)
  from 1 2 3 show ?thesis by (intro conjI)
qed

text \<open>
  C3 as the specification states it also sends an author that is present but not a string
  to \<^verbatim>\<open>"unknown"\<close>. On \<^verbatim>\<open>{"author": 5}\<close> the group is the integer 5.
\<close>

theorem non_string_author_is_kept:
  "accepted (logged (process_message cpython ''{\"author\": 5}'' [])) = [(JInt 5, Fin (1 / 2))]
   \<and> stats_after (process_message cpython ''{\"author\": 5}'' [])
      = [(JInt 5, \<lparr>count = 1, sentiment_sum = Fin (1 / 2)\<rparr>)]
   \<and> JInt 5 \<noteq> JStr ''unknown''"
  by code_simp

subsection \<open>Start-up and cancellation\<close>

lemma tailing_interrupted: "snd (tailing lib es st) = (Interrupt \<in> set es)"
  by (induction lib es st rule: tailing.induct) simp_all

text \<open>
  C7. When \<^verbatim>\<open>DATA_FILE\<close> does not exist, \<^verbatim>\<open>main\<close> exits with status 1 before the loop:
  no iteration, no message handled, and the \<^verbatim>\<open>finally\<close> block is not entered. When the file
  exists, the loop is left only by \<^verbatim>\<open>KeyboardInterrupt\<close>; then the \<^verbatim>\<open>finally\<close> block runs
  (\<^verbatim>\<open>plt.ioff(); plt.show()\<close>) and the process ends with status 0.
\<close>

theorem missing_file_and_interrupt:
  "exit_status (main lib None es) = Some 1
   \<and> iterations (loop (main lib None es)) = 0
   \<and> handled (loop (main lib None es)) = []
   \<and> \<not> finalized (main lib None es)
   \<and> (Interrupt \<in> set es \<longrightarrow>
        exit_status (main lib (Some text) es) = Some 0 \<and> finalized (main lib (Some text) es))
   \<and> (Interrupt \<notin> set es \<longrightarrow> exit_status (main lib (Some text) es) = None)"
proof -
  obtain st b where t: "tailing lib es (start text) = (st, b)"
    by (cases "tailing lib es (start text)")
  with tailing_interrupted [of lib es "start text"] have "b = (Interrupt \<in> set es)" by simp
  with t show ?thesis by (simp add: main_def start_def)
qed

theorem missing_file_and_interrupt_witness:
  "Interrupt \<in> set [Write ''{}\<newline>'', Poll, Interrupt, Poll]
   \<and> exit_status (main cpython (Some ''old\<newline>'') [Write ''{}\<newline>'', Poll, Interrupt, Poll]) = Some 0
   \<and> finalized (main cpython (Some ''old\<newline>'') [Write ''{}\<newline>'', Poll, Interrupt, Poll])
   \<and> Interrupt \<notin> set [Write ''{}\<newline>'', Poll]
   \<and> exit_status (main cpython (Some ''old\<newline>'') [Write ''{}\<newline>'', Poll]) = None
   \<and> exit_status (main cpython None [Write ''{}\<newline>'', Poll]) = Some 1"
proof -
  have 1: "Interrupt \<in> set [Write ''{}\<newline>'', Poll, Interrupt, Poll]" by simp
  have 2: "Interrupt \<notin> set [Write ''{}\<newline>'', Poll]" by simp
  note a = missing_file_and_interrupt [of cpython "[Write ''{}\<newline>'', Poll, Interrupt, Poll]" "''old\<newline>''"]
  note b = missing_file_and_interrupt [of cpython "[Write ''{}\<newline>'', Poll]" "''old\<newline>''"]
  from 1 a have 3: "exit_status (main cpython (Some ''old\<newline>'') [Write ''{}\<newline>'', Poll, Interrupt, Poll]) = Some 0
    \<and> finalized (main cpython (Some ''old\<newline>'') [Write ''{}\<newline>'', Poll, Interrupt, Poll])" by blast
  from 2 b have 4: "exit_status (main cpython (Some ''old\<newline>'') [Write ''{}\<newline>'', Poll]) = None" by blast
  from b have 5: "exit_status (main cpython None [Write ''{}\<newline>'', Poll]) = Some 1" by blast
  from 1 2 3 4 5 show ?thesis by blast
qed

subsection \<open>Reading from the end of the file\<close>

lemma readline_shift:
  "readline \<lparr>content = pre @ content f, pos = length pre + pos f\<rparr>
   = (fst (readline f), \<lparr>content = pre @ content (snd (readline f)),
                          pos = length pre + pos (snd (readline f))\<rparr>)"
  by (simp add: readline_def Let_def)

lemma iteration_shift:
  "iteration lib (st\<lparr>fileobj := \<lparr>content = pre @ content (fileobj st),
                                 pos = length pre + pos (fileobj st)\<rparr>\<rparr>)
   = (iteration lib st)\<lparr>fileobj := \<lparr>content = pre @ content (fileobj (iteration lib st)),
                                    pos = length pre + pos (fileobj (iteration lib st))\<rparr>\<rparr>"
  by (simp add: iteration_def readline_shift Let_def split: prod.splits)

lemma tailing_shift:
  "tailing lib es (st\<lparr>fileobj := \<lparr>content = pre @ content (fileobj st),
                                  pos = length pre + pos (fileobj st)\<rparr>\<rparr>)
   = ((fst (tailing lib es st))
        \<lparr>fileobj := \<lparr>content = pre @ content (fileobj (fst (tailing lib es st))),
                     pos = length pre + pos (fileobj (fst (tailing lib es st)))\<rparr>\<rparr>,
      snd (tailing lib es st))"
proof (induction lib es st rule: tailing.induct)
  case (1 lib st)
  show ?case by simp
next
  case (2 lib s es st)
  have "st\<lparr>fileobj := \<lparr>content = pre @ content (fileobj st), pos = length pre + pos (fileobj st)\<rparr>,
           fileobj := append_text s \<lparr>content = pre @ content (fileobj st),
                                     pos = length pre + pos (fileobj st)\<rparr>\<rparr>
        = (st\<lparr>fileobj := append_text s (fileobj st)\<rparr>)
            \<lparr>fileobj := \<lparr>content = pre @ content (fileobj (st\<lparr>fileobj := append_text s (fileobj st)\<rparr>)),
                         pos = length pre + pos (fileobj (st\<lparr>fileobj := append_text s (fileobj st)\<rparr>))\<rparr>\<rparr>"
    by (simp add: append_text_def)
  with 2 show ?case by simp
next
  case (3 lib es st)
  then show ?case by (simp add: iteration_shift)
next
  case (4 lib es st)
  show ?case by simp
qed

lemma start_shift:
  "start pre = (start [])\<lparr>fileobj := \<lparr>content = pre @ content (fileobj (start [])),
                                      pos = length pre + pos (fileobj (start []))\<rparr>\<rparr>"
  by (simp add: start_def seek_end_def open_file_def)

lemma main_shift:
  "handled (loop (main lib (Some pre) es)) = handled (loop (main lib (Some []) es))"
  "logs (loop (main lib (Some pre) es)) = logs (loop (main lib (Some []) es))"
  "author_stats (loop (main lib (Some pre) es)) = author_stats (loop (main lib (Some []) es))"
proof -
  obtain st b where t: "tailing lib es (start []) = (st, b)"
    by (cases "tailing lib es (start [])")
  have "tailing lib es (start pre)
        = (st\<lparr>fileobj := \<lparr>content = pre @ content (fileobj st),
                           pos = length pre + pos (fileobj st)\<rparr>\<rparr>, b)"
    using tailing_shift [where lib = lib and es = es and st = "start []" and pre = pre] t
    by (simp add: start_shift [symmetric])
  with t show "handled (loop (main lib (Some pre) es)) = handled (loop (main lib (Some []) es))"
    "logs (loop (main lib (Some pre) es)) = logs (loop (main lib (Some []) es))"
    "author_stats (loop (main lib (Some pre) es)) = author_stats (loop (main lib (Some []) es))"
    by (cases b; simp add: main_def)+
qed


lemma readline_eof: "length (content f) \<le> pos f \<Longrightarrow> readline f = ([], f)"
  by (simp add: readline_def)

lemma iteration_eof:
  "length (content (fileobj st)) \<le> pos (fileobj st) \<Longrightarrow>
   iteration lib st = st\<lparr>iterations := iterations st + 1, sleeps := sleeps st + 1\<rparr>"
  by (simp add: iteration_def readline_eof strip_def)

lemma polls_eof:
  "length (content (fileobj st)) \<le> pos (fileobj st) \<Longrightarrow>
   tailing lib (replicate n Poll) st
   = (st\<lparr>iterations := iterations st + n, sleeps := sleeps st + n\<rparr>, False)"
proof (induction n arbitrary: st)
  case 0
  show ?case by simp
next
  case (Suc n)
  from Suc.prems have "iteration lib st = st\<lparr>iterations := iterations st + 1, sleeps := sleeps st + 1\<rparr>"
    by (rule iteration_eof)
  moreover from Suc.prems
  have "length (content (fileobj (st\<lparr>iterations := iterations st + 1, sleeps := sleeps st + 1\<rparr>)))
        \<le> pos (fileobj (st\<lparr>iterations := iterations st + 1, sleeps := sleeps st + 1\<rparr>))" by simp
  ultimately show ?case using Suc.IH [of "st\<lparr>iterations := iterations st + 1, sleeps := sleeps st + 1\<rparr>"]
    by simp
qed



lemma handled_polls_eof:
  "length (content (fileobj st)) \<le> pos (fileobj st) \<Longrightarrow>
   handled (fst (tailing lib (replicate n Poll) st)) = handled st"
  by (simp add: polls_eof)

lemma loop_main: "loop (main lib (Some text) es) = fst (tailing lib es (start text))"
proof (cases "tailing lib es (start text)")
  case (Pair st b)
  then show ?thesis by (cases b) (simp_all add: main_def)
qed

lemma iteration_reads:
  assumes "readline (fileobj st) = (line, f)"
  shows "handled (iteration lib st) = handled st @ (if strip line = [] then [] else [line])"
    and "fileobj (iteration lib st) = f"
    and "sleeps (iteration lib st) = sleeps st + (if strip line = [] then 1 else 0)"
  using assms by (simp_all add: iteration_def Let_def)

text \<open>
  C5. \<^verbatim>\<open>file.seek(0, os.SEEK_END)\<close> puts the reader at the end of what the file holds when
  it is opened: whatever the file held before, the run handles the same lines, logs the same
  records and builds the same \<^verbatim>\<open>author_stats\<close> as on a file that was empty at that moment.
  With \<^verbatim>\<open>line1\<close> in the file before and \<^verbatim>\<open>line2\<close> appended after, the only line handed
  to \<^verbatim>\<open>process_message\<close>, however long the loop goes on, is \<^verbatim>\<open>line2\<close> (with its newline).
\<close>

theorem tail_starts_at_end_of_file:
  "handled (loop (main lib (Some pre) es)) = handled (loop (main lib (Some []) es))
   \<and> logs (loop (main lib (Some pre) es)) = logs (loop (main lib (Some []) es))
   \<and> author_stats (loop (main lib (Some pre) es)) = author_stats (loop (main lib (Some []) es))
   \<and> handled (loop (main lib (Some ''line1\<newline>'') (Write ''line2\<newline>'' # Poll # replicate n Poll)))
      = [''line2\<newline>'']
   \<and> map strip (handled (loop (main lib (Some ''line1\<newline>'')
        (Write ''line2\<newline>'' # Poll # replicate n Poll)))) = [''line2'']"
proof -
  let ?st0 = "(start [])\<lparr>fileobj := append_text ''line2\<newline>'' (fileobj (start []))\<rparr>"
  have r: "readline (fileobj ?st0) = (''line2\<newline>'', \<lparr>content = ''line2\<newline>'', pos = 6\<rparr>)"
    by code_simp
  have s: "strip ''line2\<newline>'' = ''line2''"
    by code_simp
  from iteration_reads [OF r, of lib] s
  have h: "handled (iteration lib ?st0) = [''line2\<newline>'']"
    and f: "fileobj (iteration lib ?st0) = \<lparr>content = ''line2\<newline>'', pos = 6\<rparr>"
    by (simp_all add: start_def)
  from f have "length (content (fileobj (iteration lib ?st0))) \<le> pos (fileobj (iteration lib ?st0))"
    by simp
  from handled_polls_eof [OF this, of lib n] h
  have "handled (fst (tailing lib (Write ''line2\<newline>'' # Poll # replicate n Poll) (start [])))
        = [''line2\<newline>'']"
    by simp
  then have "handled (loop (main lib (Some []) (Write ''line2\<newline>'' # Poll # replicate n Poll)))
        = [''line2\<newline>'']"
    by (simp only: loop_main)
  then have c: "handled (loop (main lib (Some ''line1\<newline>'')
        (Write ''line2\<newline>'' # Poll # replicate n Poll))) = [''line2\<newline>'']"
    by (simp only: main_shift(1) [of lib "''line1\<newline>''"])
  from c s main_shift [of lib pre es] show ?thesis by simp
qed

subsection \<open>A line that is not yet complete\<close>




subsection \<open>Looking up and updating author_stats\<close>












lemma update_stats_raises: "update_stats d a v = Inl e \<Longrightarrow> \<not> hashable a"
  by (auto simp: update_stats_def getitem_def Let_def split: if_splits option.splits)




lemma group_values_append: "group_values g (xs @ ys) = group_values g xs @ group_values g ys"
  by (simp add: group_values_def)


subsection \<open>The dict stays a dict\<close>





subsection \<open>What update_chart computes\<close>






subsection \<open>Additivity\<close>




subsection \<open>The keys of author_stats\<close>






subsection \<open>The three-line scenario\<close>

text \<open>
  C8. On the lines \<^verbatim>\<open>{"author":"alice","sentiment":0.8}\<close>, \<^verbatim>\<open>{"author":"bob","sentiment":0.2}\<close>
  and \<^verbatim>\<open>{"author":"alice","sentiment":0.6}\<close>, all three are accepted; alice ends with
  count 2 and bob with count 1, and the chart drawn after the third line shows for alice the
  float that \<^verbatim>\<open>0.7\<close> denotes and for bob the float that \<^verbatim>\<open>0.2\<close> denotes: in binary64,
  \<^verbatim>\<open>(0.0 + 0.8 + 0.6) / 2 == 0.7\<close> and \<^verbatim>\<open>(0.0 + 0.2) / 1 == 0.2\<close>.
\<close>

theorem alice_bob_scenario:
  "process_all cpython
     [''{\"author\":\"alice\",\"sentiment\":0.8}'', ''{\"author\":\"bob\",\"sentiment\":0.2}'',
      ''{\"author\":\"alice\",\"sentiment\":0.6}''] []
   = ([(JStr ''alice'',
        \<lparr>count = 2, sentiment_sum = Fin (3152519739159347 / 2251799813685248)\<rparr>),
       (JStr ''bob'',
        \<lparr>count = 1, sentiment_sum = Fin (3602879701896397 / 18014398509481984)\<rparr>)],
      [Processed (JStr ''alice'') (Fin (3602879701896397 / 4503599627370496)),
       Processed (JStr ''bob'') (Fin (3602879701896397 / 18014398509481984)),
       Processed (JStr ''alice'') (Fin (5404319552844595 / 9007199254740992))])
   \<and> drawn (process_message cpython ''{\"author\":\"alice\",\"sentiment\":0.6}''
        [(JStr ''alice'',
          \<lparr>count = 1, sentiment_sum = Fin (3602879701896397 / 4503599627370496)\<rparr>),
         (JStr ''bob'',
          \<lparr>count = 1, sentiment_sum = Fin (3602879701896397 / 18014398509481984)\<rparr>)])
     = Some \<lparr>authors = [JStr ''alice'', JStr ''bob''], counts = [2, 1],
             avgs = [Fin (3152519739159347 / 4503599627370496),
                     Fin (3602879701896397 / 18014398509481984)]\<rparr>
   \<and> float_of_str ''0.7'' = Inr (Fin (3152519739159347 / 4503599627370496))
   \<and> float_of_str ''0.2'' = Inr (Fin (3602879701896397 / 18014398509481984))"
  by code_simp

subsection \<open>The loop and the sequence of its messages\<close>

lemma process_all_snoc:
  "process_all lib (ms @ [m]) d
   = (case process_all lib ms d of
        (d1, l1) \<Rightarrow> (stats_after (process_message lib m d1),
                     l1 @ logged (process_message lib m d1)))"
proof (induction ms arbitrary: d)
  case Nil
  show ?case by (simp add: Let_def)
next
  case (Cons x ms)
  show ?case
    by (simp add: Let_def Cons.IH split: prod.splits)
qed

lemma iteration_process_all:
  assumes "process_all lib (handled st) [] = (author_stats st, logs st)"
  shows "process_all lib (handled (iteration lib st)) []
         = (author_stats (iteration lib st), logs (iteration lib st))"
proof (cases "readline (fileobj st)")
  case (Pair line f)
  with assms show ?thesis
    by (cases "strip line = []") (simp_all add: iteration_def Let_def process_all_snoc)
qed

lemma tailing_process_all:
  "process_all lib (handled st) [] = (author_stats st, logs st) \<Longrightarrow>
   process_all lib (handled (fst (tailing lib es st))) []
   = (author_stats (fst (tailing lib es st)), logs (fst (tailing lib es st)))"
proof (induction lib es st rule: tailing.induct)
  case (1 lib st)
  then show ?case by simp
next
  case (2 lib s es st)
  then show ?case by simp
next
  case (3 lib es st)
  from "3.IH" [OF iteration_process_all [OF "3.prems"]] show ?case by simp
next
  case (4 lib es st)
  then show ?case by simp
qed

text \<open>
  What the loop of \<^verbatim>\<open>main\<close> has in \<^verbatim>\<open>author_stats\<close> and in its log is what the calls of
  \<^verbatim>\<open>process_message\<close> on the lines it handled, in order, produce from the empty dict.
\<close>

lemma main_process_all:
  "process_all lib (handled (loop (main lib (Some text) es))) []
   = (author_stats (loop (main lib (Some text) es)), logs (loop (main lib (Some text) es)))"
proof -
  have "process_all lib (handled (start text)) [] = (author_stats (start text), logs (start text))"
    by (simp add: start_def)
  from tailing_process_all [OF this] show ?thesis by (simp only: loop_main)
qed

end
